theory Spec2Isabelle
  imports Complex_Main "HOL-Library.Word"
begin

section \<open>The Hunyuan3D direct API server\<close>

text \<open>
  The source is \<^verbatim>\<open>generation_testing/direct_api_server.py\<close>.
  The server keeps a module-level dictionary \<^verbatim>\<open>jobs\<close> from job identifiers to job
  records, and offers a synchronous endpoint (\<^verbatim>\<open>generate_model\<close>), a submission endpoint
  (\<^verbatim>\<open>send_job\<close>) whose work is done later by \<^verbatim>\<open>process_job\<close>, and a status endpoint
  (\<^verbatim>\<open>get_job_status\<close>). The embedding below follows the Python text statement by
  statement. Exceptions are values of a sum type, the dictionary is a map, and everything
  the program reads from outside (the credential, the backend's answer, the clock, the
  uuid generator) is a parameter. Calls of \<^verbatim>\<open>logger\<close> change nothing a claim speaks about and
  are left out.
\<close>

subsection \<open>Data\<close>

type_synonym bytes = "8 word list"

text \<open>Python floats are only stored and handed on by this program, never computed with.\<close>

type_synonym pyfloat = real

text \<open>The pydantic model \<^verbatim>\<open>GenerateRequest\<close>; every field but the image is Optional.\<close>

record GenerateRequest =
  image_b64 :: string
  caption :: "string option"
  seed :: "int option"
  octree_resolution :: "int option"
  num_inference_steps :: "int option"
  guidance_scale :: "pyfloat option"
  mc_algo :: "string option"
  texture :: "bool option"
  output_type :: "string option"

text \<open>
  A job record is the dictionary that \<^verbatim>\<open>send_job\<close> stores. The keys \<^verbatim>\<open>status\<close>,
  \<^verbatim>\<open>progress\<close>, \<^verbatim>\<open>message\<close>, \<^verbatim>\<open>created_at\<close> and \<^verbatim>\<open>request\<close> are there from
  the start; \<^verbatim>\<open>model_base64\<close>, \<^verbatim>\<open>completed_at\<close> and \<^verbatim>\<open>error\<close> are added later, so
  they are optional here and \<open>None\<close> stands for a key that is not in the dictionary.
\<close>

record job =
  status :: string
  progress :: int
  message :: string
  created_at :: pyfloat
  request :: GenerateRequest
  model_base64 :: "string option"
  completed_at :: "pyfloat option"
  error :: "string option"

type_synonym job_table = "string \<rightharpoonup> job"

text \<open>The pydantic model \<^verbatim>\<open>JobStatus\<close> returned by the status endpoint.\<close>

record JobStatus =
  js_status :: string
  js_progress :: "pyfloat option"
  js_message :: "string option"
  js_model_base64 :: "string option"
  js_error :: "string option"

text \<open>
  The dictionary \<^verbatim>\<open>parameters\<close> built by \<^verbatim>\<open>generate_3d_model\<close>. The key \<^verbatim>\<open>seed\<close> is
  only set when a seed was given, so \<open>p_seed = None\<close> is the dictionary without that key.
\<close>

record parameters =
  p_caption :: "string option"
  p_steps :: "int option"
  p_guidance_scale :: "pyfloat option"
  p_octree_resolution :: "int option"
  p_check_box_rembg :: bool
  p_num_chunks :: int
  p_randomize_seed :: bool
  p_seed :: "int option"

text \<open>The list \<^verbatim>\<open>[image_data, parameters, output_type]\<close> posted to the backend.\<close>

record payload =
  data_image :: bytes
  data_parameters :: parameters
  data_output_type :: "string option"

datatype py_exception =
  ValueError string
  | BinasciiError string
  | KeyError string
  | PyException string

datatype http_exception = HTTPException int string

datatype response = Response bytes string

record send_response =
  uid :: string
  sr_status :: string

text \<open>
  What the process reads from outside: the environment variable
  \<^verbatim>\<open>HUGGINGFACE_API_KEY\<close> and the answer of \<^verbatim>\<open>InferenceClient.post\<close> to a payload,
  which is the model's bytes or an exception.
\<close>

record env =
  api_key :: "string option"
  post :: "payload \<Rightarrow> py_exception + bytes"

text \<open>
  The state: the dictionary \<^verbatim>\<open>jobs\<close>, the tasks handed to \<^verbatim>\<open>background_tasks\<close>, and two
  logs that the program never reads: \<open>history\<close> holds the dictionary after each assignment
  to it, oldest first, and \<open>posted\<close> the payloads handed to the backend.
\<close>

record world =
  jobs :: job_table
  tasks :: "(string \<times> GenerateRequest) list"
  history :: "job_table list"
  posted :: "payload list"

definition start :: "job_table \<Rightarrow> world" where
  "start js = \<lparr>jobs = js, tasks = [], history = [], posted = []\<rparr>"

subsection \<open>Decimal numbers and the text of an exception\<close>

definition digit_char :: "nat \<Rightarrow> char" where
  "digit_char d = ''0123456789'' ! d"

function str_nat :: "nat \<Rightarrow> string" where
  "str_nat n = (if n < 10 then [digit_char n] else str_nat (n div 10) @ [digit_char (n mod 10)])"
  by pat_completeness auto
termination
  by (relation "measure id") auto

declare str_nat.simps [simp del]

text \<open>
  \<^verbatim>\<open>repr\<close> of a str: between single quotes, or between double quotes when the string
  has a single quote and no double quote; the quote in use and the backslash are escaped
  with a backslash, tab, newline and carriage return are written \<^verbatim>\<open>\t\<close>, \<^verbatim>\<open>\n\<close> and
  \<^verbatim>\<open>\r\<close>, and the other ASCII control characters in hexadecimal. A \<open>char\<close> from 128 on
  is a byte of the UTF-8 form of a character outside ASCII and is copied, as \<^verbatim>\<open>repr\<close>
  copies the printable ones.
\<close>

definition hex_digit :: "nat \<Rightarrow> char" where
  "hex_digit d = ''0123456789abcdef'' ! (d mod 16)"

definition repr_char :: "char \<Rightarrow> char \<Rightarrow> string" where
  "repr_char quote ch =
     (let n = (of_char ch :: nat)
      in if ch = quote \<or> ch = CHR 0x5C then [CHR 0x5C, ch]
         else if ch = CHR 0x09 then [CHR 0x5C, CHR ''t'']
         else if ch = CHR 0x0A then [CHR 0x5C, CHR ''n'']
         else if ch = CHR 0x0D then [CHR 0x5C, CHR ''r'']
         else if n < 32 \<or> n = 127 then [CHR 0x5C, CHR ''x'', hex_digit (n div 16), hex_digit n]
         else [ch])"

definition py_repr :: "string \<Rightarrow> string" where
  "py_repr s =
     (let quote = (if CHR 0x27 \<in> set s \<and> CHR 0x22 \<notin> set s then CHR 0x22 else CHR 0x27)
      in [quote] @ concat (map (repr_char quote) s) @ [quote])"

text \<open>\<^verbatim>\<open>str(e)\<close>: the message, and for a \<^verbatim>\<open>KeyError\<close> the repr of the key.\<close>

fun str_exc :: "py_exception \<Rightarrow> string" where
  "str_exc (ValueError m) = m"
| "str_exc (BinasciiError m) = m"
| "str_exc (KeyError k) = py_repr k"
| "str_exc (PyException m) = m"

subsection \<open>The standard library's base64\<close>

text \<open>
  \<^verbatim>\<open>base64.b64encode\<close> (RFC 4648, standard alphabet, padded), followed by
  \<^verbatim>\<open>.decode('utf-8')\<close>, which is the identity on the ASCII output.
\<close>

definition b64_alphabet :: string where
  "b64_alphabet = ''ABCDEFGHIJKLMNOPQRSTUVWXYZabcdefghijklmnopqrstuvwxyz0123456789+/''"

definition b64_char :: "nat \<Rightarrow> char" where
  "b64_char i = b64_alphabet ! (i mod 64)"

fun b64encode :: "bytes \<Rightarrow> string" where
  "b64encode [] = []"
| "b64encode [a] =
     (let n = unat a * 65536
      in [b64_char (n div 262144), b64_char (n div 4096), CHR ''='', CHR ''=''])"
| "b64encode [a, b] =
     (let n = unat a * 65536 + unat b * 256
      in [b64_char (n div 262144), b64_char (n div 4096), b64_char (n div 64), CHR ''=''])"
| "b64encode (a # b # c # rest) =
     (let n = unat a * 65536 + unat b * 256 + unat c
      in [b64_char (n div 262144), b64_char (n div 4096), b64_char (n div 64), b64_char n])
     @ b64encode rest"

text \<open>
  \<^verbatim>\<open>base64.b64decode(s)\<close> on a str, with the default \<^verbatim>\<open>validate=False\<close>: the string is
  first encoded as ASCII (a \<^verbatim>\<open>ValueError\<close> when it has another character), then
  \<^verbatim>\<open>binascii.a2b_base64\<close> reads it in its lenient mode: characters outside the alphabet
  are skipped, a pad sequence that completes a quad ends the input, and an incomplete
  quad at the end is an error.
\<close>

definition b64_index :: "char \<Rightarrow> nat option" where
  "b64_index ch =
     (let n = (of_char ch :: nat)
      in if 65 \<le> n \<and> n \<le> 90 then Some (n - 65)
         else if 97 \<le> n \<and> n \<le> 122 then Some (n - 71)
         else if 48 \<le> n \<and> n \<le> 57 then Some (n + 4)
         else if n = 43 then Some 62
         else if n = 47 then Some 63
         else None)"

fun a2b_base64 :: "string \<Rightarrow> nat \<Rightarrow> nat \<Rightarrow> nat \<Rightarrow> bytes \<Rightarrow> py_exception + bytes" where
  "a2b_base64 [] quad_pos leftchar pads out =
     (if quad_pos = 0 then Inr out
      else if quad_pos = 1 then
        Inl (BinasciiError (''Invalid base64-encoded string: number of data characters (''
               @ str_nat (length out div 3 * 4 + 1)
               @ '') cannot be 1 more than a multiple of 4''))
      else Inl (BinasciiError ''Incorrect padding''))"
| "a2b_base64 (ch # rest) quad_pos leftchar pads out =
     (if ch = CHR ''='' then
        (if 2 \<le> quad_pos \<and> 4 \<le> quad_pos + (pads + 1) then Inr out
         else a2b_base64 rest quad_pos leftchar (if 2 \<le> quad_pos then pads + 1 else pads) out)
      else
        (case b64_index ch of
           None \<Rightarrow> a2b_base64 rest quad_pos leftchar pads out
         | Some v \<Rightarrow>
             (if quad_pos = 0 then a2b_base64 rest 1 v 0 out
              else if quad_pos = 1 then
                a2b_base64 rest 2 (v mod 16) 0 (out @ [of_nat (leftchar * 4 + v div 16)])
              else if quad_pos = 2 then
                a2b_base64 rest 3 (v mod 4) 0 (out @ [of_nat (leftchar * 16 + v div 4)])
              else
                a2b_base64 rest 0 0 0 (out @ [of_nat (leftchar * 64 + v)]))))"

definition b64decode :: "string \<Rightarrow> py_exception + bytes" where
  "b64decode s =
     (if \<exists>ch \<in> set s. 128 \<le> (of_char ch :: nat)
      then Inl (ValueError ''string argument should contain only ASCII characters'')
      else a2b_base64 s 0 0 0 [])"

subsection \<open>Statements: state passing with exceptions\<close>

text \<open>
  A piece of program takes the state and returns the state it leaves together with its
  value or the exception it raised. What was assigned before an exception stays assigned.
\<close>

type_synonym 'a prog = "world \<Rightarrow> (py_exception + 'a) \<times> world"

definition ret :: "'a \<Rightarrow> 'a prog" where
  "ret x w = (Inr x, w)"

definition raise :: "py_exception \<Rightarrow> 'a prog" where
  "raise e w = (Inl e, w)"

definition lift :: "py_exception + 'a \<Rightarrow> 'a prog" where
  "lift r w = (r, w)"

definition pbind :: "'a prog \<Rightarrow> ('a \<Rightarrow> 'b prog) \<Rightarrow> 'b prog" where
  "pbind m f w = (case m w of (Inl e, w') \<Rightarrow> (Inl e, w') | (Inr x, w') \<Rightarrow> f x w')"

definition pthen :: "unit prog \<Rightarrow> 'b prog \<Rightarrow> 'b prog" where
  "pthen m k = pbind m (\<lambda>_. k)"

definition try_except :: "'a prog \<Rightarrow> (py_exception \<Rightarrow> 'a prog) \<Rightarrow> 'a prog" where
  "try_except m h w = (case m w of (Inl e, w') \<Rightarrow> h e w' | (Inr x, w') \<Rightarrow> (Inr x, w'))"

text \<open>\<^verbatim>\<open>jobs[job_id] = record\<close>: stores the record, whatever was there.\<close>

definition store_job :: "string \<Rightarrow> job \<Rightarrow> unit prog" where
  "store_job job_id r w =
     (let js = (jobs w)(job_id \<mapsto> r)
      in (Inr (), w\<lparr>jobs := js, history := history w @ [js]\<rparr>))"

text \<open>
  \<^verbatim>\<open>jobs[job_id][key] = value\<close>: looks the record up, which raises \<^verbatim>\<open>KeyError\<close> when
  the identifier is not in the dictionary, and sets one key of it.
\<close>

definition set_item :: "string \<Rightarrow> (job \<Rightarrow> job) \<Rightarrow> unit prog" where
  "set_item job_id upd w =
     (case jobs w job_id of
        None \<Rightarrow> (Inl (KeyError job_id), w)
      | Some j \<Rightarrow>
          (let js = (jobs w)(job_id \<mapsto> upd j)
           in (Inr (), w\<lparr>jobs := js, history := history w @ [js]\<rparr>)))"

text \<open>\<^verbatim>\<open>background_tasks.add_task(process_job, job_id, request)\<close>.\<close>

definition add_task :: "string \<Rightarrow> GenerateRequest \<Rightarrow> unit prog" where
  "add_task job_id req w = (Inr (), w\<lparr>tasks := tasks w @ [(job_id, req)]\<rparr>)"

text \<open>\<^verbatim>\<open>self.client.post(data=...)\<close>: the backend answers, and the call is logged.\<close>

definition client_post :: "env \<Rightarrow> payload \<Rightarrow> bytes prog" where
  "client_post e p w = (post e p, w\<lparr>posted := posted w @ [p]\<rparr>)"

subsection \<open>The Generator Client\<close>

text \<open>Python's truth value of \<^verbatim>\<open>self.api_key\<close>: \<^verbatim>\<open>None\<close> and the empty string are false.\<close>

definition truthy :: "string option \<Rightarrow> bool" where
  "truthy k = (case k of None \<Rightarrow> False | Some s \<Rightarrow> s \<noteq> [])"

definition build_parameters ::
  "string option \<Rightarrow> int option \<Rightarrow> int option \<Rightarrow> int option \<Rightarrow> pyfloat option \<Rightarrow> parameters" where
  "build_parameters caption' seed' octree_resolution' num_inference_steps' guidance_scale' =
     (let params = \<lparr>p_caption = caption', p_steps = num_inference_steps',
                    p_guidance_scale = guidance_scale',
                    p_octree_resolution = octree_resolution',
                    p_check_box_rembg = True, p_num_chunks = 4000,
                    p_randomize_seed = (if seed' = None then True else False),
                    p_seed = None\<rparr>
      in if seed' \<noteq> None then params\<lparr>p_seed := seed'\<rparr> else params)"

definition generate_3d_model ::
  "env \<Rightarrow> bytes \<Rightarrow> string option \<Rightarrow> int option \<Rightarrow> int option \<Rightarrow> int option \<Rightarrow> pyfloat option
     \<Rightarrow> string option \<Rightarrow> bool option \<Rightarrow> string option \<Rightarrow> bytes prog" where
  "generate_3d_model e image_data caption' seed' octree_resolution' num_inference_steps'
       guidance_scale' mc_algo' texture' output_type' =
     (if \<not> truthy (api_key e) then raise (ValueError ''HUGGINGFACE_API_KEY is not set'')
      else
        try_except
          (let params = build_parameters caption' seed' octree_resolution'
                          num_inference_steps' guidance_scale'
           in client_post e \<lparr>data_image = image_data, data_parameters = params,
                              data_output_type = output_type'\<rparr>)
          (\<lambda>ex. raise (PyException (''Error generating 3D model: '' @ str_exc ex))))"

subsection \<open>The endpoints and the background task\<close>

text \<open>\<^verbatim>\<open>POST /generate\<close>.\<close>

definition generate_model :: "env \<Rightarrow> GenerateRequest \<Rightarrow> world \<Rightarrow> (http_exception + response) \<times> world" where
  "generate_model e req w =
     (case pbind (lift (b64decode (image_b64 req))) (\<lambda>image_data.
             generate_3d_model e image_data (caption req) (seed req) (octree_resolution req)
               (num_inference_steps req) (guidance_scale req) (mc_algo req) (texture req)
               (output_type req)) w of
        (Inr model_data, w') \<Rightarrow> (Inr (Response model_data ''application/octet-stream''), w')
      | (Inl ex, w') \<Rightarrow> (Inl (HTTPException 500 (str_exc ex)), w'))"

text \<open>
  \<^verbatim>\<open>POST /send\<close>. The dictionary literal it stores is \<open>queued_record\<close>; the keys the
  literal does not have are \<open>None\<close>. The identifier is \<^verbatim>\<open>str(uuid.uuid4())\<close> and the time is
  \<^verbatim>\<open>time.time()\<close>; both come from outside and are arguments here.
\<close>

definition queued_record :: "pyfloat \<Rightarrow> GenerateRequest \<Rightarrow> job" where
  "queued_record now req =
     \<lparr>status = ''queued'', progress = 0, message = ''Job queued for processing'',
      created_at = now, request = req,
      model_base64 = None, completed_at = None, error = None\<rparr>"

definition send_job :: "string \<Rightarrow> pyfloat \<Rightarrow> GenerateRequest \<Rightarrow> world \<Rightarrow> (http_exception + send_response) \<times> world" where
  "send_job job_id now req w =
     (case pthen (store_job job_id (queued_record now req))
            (pthen (add_task job_id req)
            (ret \<lparr>uid = job_id, sr_status = ''queued''\<rparr>)) w of
        (Inr r, w') \<Rightarrow> (Inr r, w')
      | (Inl ex, w') \<Rightarrow> (Inl (HTTPException 500 (str_exc ex)), w'))"

text \<open>
  The background task. \<open>now\<close> is the reading of \<^verbatim>\<open>time.time()\<close> in the last assignment
  of the try block.
\<close>

definition process_job :: "env \<Rightarrow> string \<Rightarrow> GenerateRequest \<Rightarrow> pyfloat \<Rightarrow> unit prog" where
  "process_job e job_id req now =
     try_except
       (pthen (set_item job_id (\<lambda>j. j\<lparr>status := ''processing''\<rparr>))
       (pthen (set_item job_id (\<lambda>j. j\<lparr>progress := 10\<rparr>))
       (pthen (set_item job_id (\<lambda>j. j\<lparr>message := ''Starting model generation''\<rparr>))
       (pbind (lift (b64decode (image_b64 req))) (\<lambda>image_data.
       (pthen (set_item job_id (\<lambda>j. j\<lparr>progress := 30\<rparr>))
       (pthen (set_item job_id (\<lambda>j. j\<lparr>message := ''Calling Hunyuan3D API''\<rparr>))
       (pbind (generate_3d_model e image_data (caption req) (seed req) (octree_resolution req)
                 (num_inference_steps req) (guidance_scale req) (mc_algo req) (texture req)
                 (output_type req)) (\<lambda>model_data.
       (pthen (set_item job_id (\<lambda>j. j\<lparr>progress := 80\<rparr>))
       (pthen (set_item job_id (\<lambda>j. j\<lparr>message := ''Processing model data''\<rparr>))
       (let model_base64' = b64encode model_data in
       (pthen (set_item job_id (\<lambda>j. j\<lparr>status := ''completed''\<rparr>))
       (pthen (set_item job_id (\<lambda>j. j\<lparr>progress := 100\<rparr>))
       (pthen (set_item job_id (\<lambda>j. j\<lparr>message := ''Model generation completed''\<rparr>))
       (pthen (set_item job_id (\<lambda>j. j\<lparr>model_base64 := Some model_base64'\<rparr>))
              (set_item job_id (\<lambda>j. j\<lparr>completed_at := Some now\<rparr>))))))))))))))))))
       (\<lambda>ex.
          (let error_msg = ''Error processing job '' @ job_id @ '': '' @ str_exc ex in
          (pthen (set_item job_id (\<lambda>j. j\<lparr>status := ''failed''\<rparr>))
          (pthen (set_item job_id (\<lambda>j. j\<lparr>progress := 0\<rparr>))
          (pthen (set_item job_id (\<lambda>j. j\<lparr>message := ''Model generation failed''\<rparr>))
                 (set_item job_id (\<lambda>j. j\<lparr>error := Some error_msg\<rparr>)))))))"

text \<open>\<^verbatim>\<open>GET /status/{job_id}\<close>; it only reads the dictionary.\<close>

definition get_job_status :: "string \<Rightarrow> job_table \<Rightarrow> http_exception + JobStatus" where
  "get_job_status job_id js =
     (case js job_id of
        None \<Rightarrow> Inl (HTTPException 404 (''Job with ID '' @ job_id @ '' not found''))
      | Some j \<Rightarrow>
          Inr \<lparr>js_status = status j,
               js_progress = Some (of_int (progress j)),
               js_message = Some (message j),
               js_model_base64 = (if status j = ''completed'' then model_base64 j else None),
               js_error = error j\<rparr>)"

subsection \<open>One job, from its submission to the end of its task\<close>

text \<open>
  \<^verbatim>\<open>send_job\<close> stores the record and schedules \<^verbatim>\<open>process_job\<close> with the same identifier
  and request; the task runs later. \<open>lifecycle\<close> is that pair of calls on a dictionary
  \<open>js\<close>, with empty logs at the start, so that \<open>history\<close> afterwards lists every
  dictionary the job went through, the one \<^verbatim>\<open>send_job\<close> left first.
\<close>

definition lifecycle ::
  "env \<Rightarrow> string \<Rightarrow> pyfloat \<Rightarrow> GenerateRequest \<Rightarrow> pyfloat \<Rightarrow> job_table
     \<Rightarrow> (py_exception + unit) \<times> world" where
  "lifecycle e job_id t0 req t1 js =
     process_job e job_id req t1 (snd (send_job job_id t0 req (start js)))"

text \<open>The successive records of one job in a history.\<close>

definition records :: "string \<Rightarrow> world \<Rightarrow> job list" where
  "records job_id w = List.map_filter (\<lambda>js. js job_id) (history w)"

subsection \<open>Concrete inputs\<close>

text \<open>A request with the image \<^verbatim>\<open>TWFu\<close> (the bytes of "Man") and pydantic's defaults.\<close>

definition example_request :: GenerateRequest where
  "example_request =
     \<lparr>image_b64 = ''TWFu'', caption = Some [], seed = None, octree_resolution = Some 128,
      num_inference_steps = Some 20, guidance_scale = Some 5, mc_algo = Some ''mc'',
      texture = Some False, output_type = Some ''glb''\<rparr>"

text \<open>The same request with an image that is not base64: one data character.\<close>

definition undecodable_request :: GenerateRequest where
  "undecodable_request = example_request\<lparr>image_b64 := ''A''\<rparr>"

text \<open>The same request asking for a texture and another surface algorithm.\<close>

definition textured_request :: GenerateRequest where
  "textured_request = example_request\<lparr>mc_algo := Some ''dmc'', texture := Some True\<rparr>"

text \<open>A backend that answers with the four bytes "glTF", one that fails, one that
  answers with no bytes, and a process started without the credential.\<close>

definition backend_ok :: env where
  "backend_ok = \<lparr>api_key = Some ''hf_token'', post = (\<lambda>p. Inr [103, 108, 84, 70])\<rparr>"

definition backend_down :: env where
  "backend_down = \<lparr>api_key = Some ''hf_token'',
                    post = (\<lambda>p. Inl (PyException ''503 Service Unavailable''))\<rparr>"

definition backend_empty :: env where
  "backend_empty = \<lparr>api_key = Some ''hf_token'', post = (\<lambda>p. Inr [])\<rparr>"

definition no_credential :: env where
  "no_credential = \<lparr>api_key = None, post = (\<lambda>p. Inr [103, 108, 84, 70])\<rparr>"

text \<open>A dictionary that already holds a finished job under the identifier \<^verbatim>\<open>job-1\<close>.\<close>

definition finished_record :: job where
  "finished_record =
     \<lparr>status = ''completed'', progress = 100, message = ''Model generation completed'',
      created_at = 1, request = example_request,
      model_base64 = Some ''Z2xURg=='', completed_at = Some 2, error = None\<rparr>"

definition one_job_table :: job_table where
  "one_job_table = [''job-1'' \<mapsto> finished_record]"

section \<open>Running the program\<close>

subsection \<open>What one run of a job leaves behind\<close>

text \<open>
  The three ways a job can go, each with the state it leaves: the image does not decode,
  the Generator Client raises, or the backend answers. The outcome of the Generator Client
  does not depend on the state it is called in, so it may be given at any \<open>w\<close>.
\<close>

lemmas prog_defs = pbind_def pthen_def try_except_def ret_def raise_def lift_def
  store_job_def set_item_def add_task_def client_post_def Let_def

lemma send_job_start:
  "send_job job_id t0 req (start js) =
     (Inr \<lparr>uid = job_id, sr_status = ''queued''\<rparr>,
      \<lparr>jobs = js(job_id \<mapsto> queued_record t0 req), tasks = [(job_id, req)],
       history = [js(job_id \<mapsto> queued_record t0 req)], posted = []\<rparr>)"
  by (simp add: send_job_def start_def prog_defs)

lemma generate_3d_model_fst:
  "fst (generate_3d_model e img c s r n g m t ot w) = fst (generate_3d_model e img c s r n g m t ot w')"
  by (simp add: generate_3d_model_def prog_defs split: sum.splits)

lemma generate_3d_model_snd:
  "snd (generate_3d_model e img c s r n g m t ot w) =
     w\<lparr>posted := posted w @
          (if truthy (api_key e)
           then [\<lparr>data_image = img, data_parameters = build_parameters c s r n g, data_output_type = ot\<rparr>]
           else [])\<rparr>"
  by (simp add: generate_3d_model_def prog_defs split: sum.splits)

lemma generate_3d_model_run:
  assumes "fst (generate_3d_model e img c s r n g m t ot w') = res"
  shows "generate_3d_model e img c s r n g m t ot w =
     (res, w\<lparr>posted := posted w @
          (if truthy (api_key e)
           then [\<lparr>data_image = img, data_parameters = build_parameters c s r n g, data_output_type = ot\<rparr>]
           else [])\<rparr>)"
  using assms generate_3d_model_fst [of e img c s r n g m t ot w w']
    generate_3d_model_snd [of e img c s r n g m t ot w]
  by (cases "generate_3d_model e img c s r n g m t ot w") simp

lemma lifecycle_decode_error:
  assumes "b64decode (image_b64 req) = Inl ex"
  shows "fst (lifecycle e job_id t0 req t1 js) = Inr ()"
    and "jobs (snd (lifecycle e job_id t0 req t1 js)) = js(job_id \<mapsto> (queued_record t0 req)\<lparr>status := ''failed'', progress := 0,
        message := ''Model generation failed'',
        error := Some (''Error processing job '' @ job_id @ '': '' @ str_exc ex)\<rparr>)"
    and "records job_id (snd (lifecycle e job_id t0 req t1 js)) =
       [queued_record t0 req,
        (queued_record t0 req)\<lparr>status := ''processing''\<rparr>,
        (queued_record t0 req)\<lparr>status := ''processing'', progress := 10\<rparr>,
        (queued_record t0 req)\<lparr>status := ''processing'', progress := 10,
            message := ''Starting model generation''\<rparr>,
        (queued_record t0 req)\<lparr>status := ''failed'', progress := 10,
            message := ''Starting model generation''\<rparr>,
        (queued_record t0 req)\<lparr>status := ''failed'', progress := 0,
            message := ''Starting model generation''\<rparr>,
        (queued_record t0 req)\<lparr>status := ''failed'', progress := 0,
            message := ''Model generation failed''\<rparr>,
        (queued_record t0 req)\<lparr>status := ''failed'', progress := 0,
            message := ''Model generation failed'',
            error := Some (''Error processing job '' @ job_id @ '': '' @ str_exc ex)\<rparr>]"
    and "posted (snd (lifecycle e job_id t0 req t1 js)) = []"
    and "tasks (snd (lifecycle e job_id t0 req t1 js)) = [(job_id, req)]"
  using assms
  by (simp_all add: lifecycle_def send_job_start process_job_def prog_defs queued_record_def
      records_def map_filter_simps)

lemma lifecycle_generate_error:
  assumes "b64decode (image_b64 req) = Inr img"
    and "fst (generate_3d_model e img (caption req) (seed req) (octree_resolution req)
               (num_inference_steps req) (guidance_scale req) (mc_algo req) (texture req)
               (output_type req) w) = Inl ex"
  shows "fst (lifecycle e job_id t0 req t1 js) = Inr ()"
    and "jobs (snd (lifecycle e job_id t0 req t1 js)) = js(job_id \<mapsto> (queued_record t0 req)\<lparr>status := ''failed'', progress := 0,
        message := ''Model generation failed'',
        error := Some (''Error processing job '' @ job_id @ '': '' @ str_exc ex)\<rparr>)"
    and "records job_id (snd (lifecycle e job_id t0 req t1 js)) =
       [queued_record t0 req,
        (queued_record t0 req)\<lparr>status := ''processing''\<rparr>,
        (queued_record t0 req)\<lparr>status := ''processing'', progress := 10\<rparr>,
        (queued_record t0 req)\<lparr>status := ''processing'', progress := 10,
            message := ''Starting model generation''\<rparr>,
        (queued_record t0 req)\<lparr>status := ''processing'', progress := 30,
            message := ''Starting model generation''\<rparr>,
        (queued_record t0 req)\<lparr>status := ''processing'', progress := 30,
            message := ''Calling Hunyuan3D API''\<rparr>,
        (queued_record t0 req)\<lparr>status := ''failed'', progress := 30,
            message := ''Calling Hunyuan3D API''\<rparr>,
        (queued_record t0 req)\<lparr>status := ''failed'', progress := 0,
            message := ''Calling Hunyuan3D API''\<rparr>,
        (queued_record t0 req)\<lparr>status := ''failed'', progress := 0,
            message := ''Model generation failed''\<rparr>,
        (queued_record t0 req)\<lparr>status := ''failed'', progress := 0,
            message := ''Model generation failed'',
            error := Some (''Error processing job '' @ job_id @ '': '' @ str_exc ex)\<rparr>]"
    and "posted (snd (lifecycle e job_id t0 req t1 js)) = (if truthy (api_key e)
        then [\<lparr>data_image = img,
                data_parameters = build_parameters (caption req) (seed req) (octree_resolution req)
                   (num_inference_steps req) (guidance_scale req),
                data_output_type = output_type req\<rparr>]
        else [])"
    and "tasks (snd (lifecycle e job_id t0 req t1 js)) = [(job_id, req)]"
  using assms(1)
  by (simp_all add: lifecycle_def send_job_start process_job_def prog_defs queued_record_def
      records_def map_filter_simps generate_3d_model_run [OF assms(2)])

lemma lifecycle_success:
  assumes "b64decode (image_b64 req) = Inr img"
    and "fst (generate_3d_model e img (caption req) (seed req) (octree_resolution req)
               (num_inference_steps req) (guidance_scale req) (mc_algo req) (texture req)
               (output_type req) w) = Inr model_data"
  shows "fst (lifecycle e job_id t0 req t1 js) = Inr ()"
    and "jobs (snd (lifecycle e job_id t0 req t1 js)) = js(job_id \<mapsto> (queued_record t0 req)\<lparr>status := ''completed'', progress := 100,
        message := ''Model generation completed'',
        model_base64 := Some (b64encode model_data), completed_at := Some t1\<rparr>)"
    and "records job_id (snd (lifecycle e job_id t0 req t1 js)) =
       [queued_record t0 req,
        (queued_record t0 req)\<lparr>status := ''processing''\<rparr>,
        (queued_record t0 req)\<lparr>status := ''processing'', progress := 10\<rparr>,
        (queued_record t0 req)\<lparr>status := ''processing'', progress := 10,
            message := ''Starting model generation''\<rparr>,
        (queued_record t0 req)\<lparr>status := ''processing'', progress := 30,
            message := ''Starting model generation''\<rparr>,
        (queued_record t0 req)\<lparr>status := ''processing'', progress := 30,
            message := ''Calling Hunyuan3D API''\<rparr>,
        (queued_record t0 req)\<lparr>status := ''processing'', progress := 80,
            message := ''Calling Hunyuan3D API''\<rparr>,
        (queued_record t0 req)\<lparr>status := ''processing'', progress := 80,
            message := ''Processing model data''\<rparr>,
        (queued_record t0 req)\<lparr>status := ''completed'', progress := 80,
            message := ''Processing model data''\<rparr>,
        (queued_record t0 req)\<lparr>status := ''completed'', progress := 100,
            message := ''Processing model data''\<rparr>,
        (queued_record t0 req)\<lparr>status := ''completed'', progress := 100,
            message := ''Model generation completed''\<rparr>,
        (queued_record t0 req)\<lparr>status := ''completed'', progress := 100,
            message := ''Model generation completed'',
            model_base64 := Some (b64encode model_data)\<rparr>,
        (queued_record t0 req)\<lparr>status := ''completed'', progress := 100,
            message := ''Model generation completed'',
            model_base64 := Some (b64encode model_data), completed_at := Some t1\<rparr>]"
    and "posted (snd (lifecycle e job_id t0 req t1 js)) = (if truthy (api_key e)
        then [\<lparr>data_image = img,
                data_parameters = build_parameters (caption req) (seed req) (octree_resolution req)
                   (num_inference_steps req) (guidance_scale req),
                data_output_type = output_type req\<rparr>]
        else [])"
    and "tasks (snd (lifecycle e job_id t0 req t1 js)) = [(job_id, req)]"
  using assms(1)
  by (simp_all add: lifecycle_def send_job_start process_job_def prog_defs queued_record_def
      records_def map_filter_simps generate_3d_model_run [OF assms(2)])

text \<open>Every run is one of the three.\<close>

lemma lifecycle_cases [case_names decode_error generate_error success]:
  obtains ex where "b64decode (image_b64 req) = Inl ex"
  | img ex where "b64decode (image_b64 req) = Inr img"
      and "fst (generate_3d_model e img (caption req) (seed req) (octree_resolution req)
               (num_inference_steps req) (guidance_scale req) (mc_algo req) (texture req)
               (output_type req) (start Map.empty)) = Inl ex"
  | img model_data where "b64decode (image_b64 req) = Inr img"
      and "fst (generate_3d_model e img (caption req) (seed req) (octree_resolution req)
               (num_inference_steps req) (guidance_scale req) (mc_algo req) (texture req)
               (output_type req) (start Map.empty)) = Inr model_data"
proof (cases "b64decode (image_b64 req)")
  case (Inl ex)
  then show ?thesis by (rule that(1))
next
  case (Inr img)
  show ?thesis
  proof (cases "fst (generate_3d_model e img (caption req) (seed req) (octree_resolution req)
               (num_inference_steps req) (guidance_scale req) (mc_algo req) (texture req)
               (output_type req) (start Map.empty))")
    case (Inl ex)
    with Inr show ?thesis by (rule that(2))
  next
    case (Inr model_data)
    with \<open>b64decode (image_b64 req) = Inr img\<close> show ?thesis by (rule that(3))
  qed
qed

lemma b64encode_empty_iff: "b64encode bs = [] \<longleftrightarrow> bs = []"
  by (induction bs rule: b64encode.induct) (simp_all add: Let_def)

subsection \<open>The concrete inputs, evaluated\<close>

lemma example_image_decodes: "b64decode (image_b64 example_request) = Inr [77, 97, 110]"
  by (simp add: example_request_def b64decode_def b64_index_def)

lemma textured_image_decodes: "b64decode (image_b64 textured_request) = Inr [77, 97, 110]"
  by (simp add: textured_request_def example_request_def b64decode_def b64_index_def)

lemma undecodable_image_fails:
  "b64decode (image_b64 undecodable_request) =
     Inl (BinasciiError (''Invalid base64-encoded string: number of data characters (1) ''
            @ ''cannot be 1 more than a multiple of 4''))"
  by (simp add: undecodable_request_def example_request_def b64decode_def b64_index_def
      str_nat.simps digit_char_def)

lemma backend_ok_answers:
  "fst (generate_3d_model backend_ok img c s r n g m t ot w) = Inr [103, 108, 84, 70]"
  by (simp add: generate_3d_model_def backend_ok_def truthy_def prog_defs)

lemma backend_empty_answers:
  "fst (generate_3d_model backend_empty img c s r n g m t ot w) = Inr []"
  by (simp add: generate_3d_model_def backend_empty_def truthy_def prog_defs)

lemma backend_down_raises:
  "fst (generate_3d_model backend_down img c s r n g m t ot w) =
     Inl (PyException ''Error generating 3D model: 503 Service Unavailable'')"
  by (simp add: generate_3d_model_def backend_down_def truthy_def prog_defs)

lemma no_credential_raises:
  "fst (generate_3d_model no_credential img c s r n g m t ot w) =
     Inl (ValueError ''HUGGINGFACE_API_KEY is not set'')"
  by (simp add: generate_3d_model_def no_credential_def truthy_def prog_defs)

subsection \<open>A task for an identifier that is not in the dictionary\<close>

text \<open>
  The first assignment of the try block raises \<^verbatim>\<open>KeyError\<close>, and so does the first
  assignment of the except block, which nothing catches. \<^verbatim>\<open>send_job\<close> stores the record
  before it schedules the task and nothing deletes a record, so a scheduled task does not
  meet this case.
\<close>

lemma process_job_unknown_job:
  assumes "jobs w job_id = None"
  shows "process_job e job_id req now w = (Inl (KeyError job_id), w)"
  using assms by (simp add: process_job_def prog_defs)

subsection \<open>The history and the records of a run\<close>

text \<open>
  Every dictionary in the history of a run is the starting dictionary with this job's
  record replaced: a run touches no other job.
\<close>

lemma lifecycle_history:
  "history (snd (lifecycle e job_id t0 req t1 js)) =
     map (\<lambda>r. js(job_id \<mapsto> r)) (records job_id (snd (lifecycle e job_id t0 req t1 js)))"
proof (cases rule: lifecycle_cases [where req = req and e = e])
  case (decode_error ex)
  then show ?thesis
    by (simp add: lifecycle_def send_job_start process_job_def prog_defs queued_record_def
      records_def map_filter_simps)
next
  case (generate_error img ex)
  show ?thesis
    using generate_error(1)
    by (simp add: lifecycle_def send_job_start process_job_def prog_defs queued_record_def
      records_def map_filter_simps generate_3d_model_run [OF generate_error(2)])
next
  case (success img model_data)
  show ?thesis
    using success(1)
    by (simp add: lifecycle_def send_job_start process_job_def prog_defs queued_record_def
      records_def map_filter_simps generate_3d_model_run [OF success(2)])
qed

text \<open>
  A record never has \<^verbatim>\<open>model_base64\<close> before it is completed, nor \<^verbatim>\<open>error\<close> before it
  is failed, because the status is assigned first.
\<close>

lemma lifecycle_records_guarded:
  "\<forall>j \<in> set (records job_id (snd (lifecycle e job_id t0 req t1 js))).
     (model_base64 j \<noteq> None \<longrightarrow> status j = ''completed'')
     \<and> (error j \<noteq> None \<longrightarrow> status j = ''failed'')"
proof (cases rule: lifecycle_cases [where req = req and e = e])
  case (decode_error ex)
  show ?thesis
    by (simp add: lifecycle_decode_error [OF decode_error] queued_record_def)
next
  case (generate_error img ex)
  show ?thesis
    by (simp add: lifecycle_generate_error [OF generate_error] queued_record_def)
next
  case (success img model_data)
  show ?thesis
    by (simp add: lifecycle_success [OF success] queued_record_def)
qed

subsection \<open>The synchronous endpoint, by the outcome of the decoding\<close>

lemma generate_model_decode_error:
  assumes "b64decode (image_b64 req) = Inl ex"
  shows "generate_model e req w = (Inl (HTTPException 500 (str_exc ex)), w)"
  using assms by (simp add: generate_model_def prog_defs)

lemma generate_model_decoded:
  assumes "b64decode (image_b64 req) = Inr image_data"
  shows "generate_model e req w =
     (case generate_3d_model e image_data (caption req) (seed req) (octree_resolution req)
             (num_inference_steps req) (guidance_scale req) (mc_algo req) (texture req)
             (output_type req) w of
        (Inr model_data, w') \<Rightarrow> (Inr (Response model_data ''application/octet-stream''), w')
      | (Inl ex, w') \<Rightarrow> (Inl (HTTPException 500 (str_exc ex)), w'))"
  using assms by (simp add: generate_model_def prog_defs)

section \<open>The claims\<close>

subsection \<open>C1: the order of the states\<close>

text \<open>
  C1. The states a job's record takes on, from the record \<^verbatim>\<open>send_job\<close> stores to the last
  assignment of \<^verbatim>\<open>process_job\<close>, are queued, then processing, then one terminal state,
  completed or failed: processing is never skipped, queued is never written again, and
  no run writes both terminal states. \<open>remdups_adj\<close> merges the equal neighbours that
  the assignments to other keys leave in the history.
\<close>

theorem job_states_in_order:
  "remdups_adj (map status (records job_id (snd (lifecycle e job_id t0 req t1 js))))
     = [''queued'', ''processing'', ''completed'']
   \<or> remdups_adj (map status (records job_id (snd (lifecycle e job_id t0 req t1 js))))
     = [''queued'', ''processing'', ''failed'']"
proof (cases rule: lifecycle_cases [where req = req and e = e])
  case (decode_error ex)
  show ?thesis
    by (simp add: lifecycle_decode_error [OF decode_error] queued_record_def)
next
  case (generate_error img ex)
  show ?thesis
    by (simp add: lifecycle_generate_error [OF generate_error] queued_record_def)
next
  case (success img model_data)
  show ?thesis
    by (simp add: lifecycle_success [OF success] queued_record_def)
qed

text \<open>
  A run against a backend that is down: queued, processing, failed.
\<close>

theorem job_states_in_order_witness:
  "remdups_adj (map status (records ''job-1''
      (snd (lifecycle backend_down ''job-1'' 0 example_request 1 Map.empty))))
     = [''queued'', ''processing'', ''failed'']"
  using job_states_in_order [of "''job-1''" backend_down 0 example_request 1 Map.empty]
  by (simp add: lifecycle_generate_error [OF example_image_decodes backend_down_raises]
      queued_record_def)

subsection \<open>C2: the result and the error\<close>

text \<open>
  C2. The claim has a completed job carry a result that is not empty, and the repository's
  own client (\<^verbatim>\<open>test_direct_api.py\<close>, in \<^verbatim>\<open>test_async_api\<close>) reports an error when a
  completed job comes without model data. The task stores the base64 text of whatever the
  backend answered, unchecked: when the backend answers with no bytes, the job ends
  completed, without an error, and its \<^verbatim>\<open>model_base64\<close> is the empty string, which is
  what the status query then returns.
\<close>

theorem completed_job_with_empty_result:
  "post backend_empty
      \<lparr>data_image = [77, 97, 110],
       data_parameters = build_parameters (caption example_request) (seed example_request)
          (octree_resolution example_request) (num_inference_steps example_request)
          (guidance_scale example_request),
       data_output_type = output_type example_request\<rparr> = Inr []
   \<and> fst (lifecycle backend_empty ''job-1'' 0 example_request 1 Map.empty) = Inr ()
   \<and> jobs (snd (lifecycle backend_empty ''job-1'' 0 example_request 1 Map.empty)) ''job-1''
     = Some \<lparr>status = ''completed'', progress = 100, message = ''Model generation completed'',
             created_at = 0, request = example_request,
             model_base64 = Some [], completed_at = Some 1, error = None\<rparr>
   \<and> get_job_status ''job-1''
        (jobs (snd (lifecycle backend_empty ''job-1'' 0 example_request 1 Map.empty)))
     = Inr \<lparr>js_status = ''completed'', js_progress = Some 100,
            js_message = Some ''Model generation completed'',
            js_model_base64 = Some [], js_error = None\<rparr>"
proof -
  have answer: "post backend_empty p = Inr []" for p
    by (simp add: backend_empty_def)
  note run = lifecycle_success [OF example_image_decodes backend_empty_answers,
      of "''job-1''" 0 1 Map.empty]
  show ?thesis
    unfolding answer run
    by (simp add: queued_record_def get_job_status_def)
qed

subsection \<open>C3: a failure is recorded, not raised\<close>

text \<open>
  C3. When the image does not decode or the Generator Client raises \<open>ex\<close>, the task
  returns normally, and the record is the queued record with exactly four keys changed:
  status failed, progress 0, message "Model generation failed", and an error text that
  names the job and carries \<^verbatim>\<open>str(ex)\<close>. \<^verbatim>\<open>completed_at\<close> and \<^verbatim>\<open>model_base64\<close> stay
  unset, and the backend was called at most once.
\<close>

theorem failure_is_recorded:
  assumes run: "lifecycle e job_id t0 req t1 js = (r, w)"
    and failure: "b64decode (image_b64 req) = Inl ex
      \<or> (\<exists>image_data w'. b64decode (image_b64 req) = Inr image_data
            \<and> fst (generate_3d_model e image_data (caption req) (seed req)
                      (octree_resolution req) (num_inference_steps req) (guidance_scale req)
                      (mc_algo req) (texture req) (output_type req) w') = Inl ex)"
  shows "r = Inr ()
       \<and> jobs w job_id = Some ((queued_record t0 req)\<lparr>status := ''failed'', progress := 0,
            message := ''Model generation failed'',
            error := Some (''Error processing job '' @ job_id @ '': '' @ str_exc ex)\<rparr>)
       \<and> ''Error processing job '' @ job_id @ '': '' @ str_exc ex \<noteq> []
       \<and> map_option completed_at (jobs w job_id) = Some None
       \<and> map_option model_base64 (jobs w job_id) = Some None
       \<and> length (posted w) \<le> 1"
proof -
  have r: "r = fst (lifecycle e job_id t0 req t1 js)"
    and w: "w = snd (lifecycle e job_id t0 req t1 js)"
    using run by simp_all
  from failure show ?thesis
  proof (elim disjE exE conjE)
    assume "b64decode (image_b64 req) = Inl ex"
    then show ?thesis
      unfolding r w by (simp add: lifecycle_decode_error queued_record_def)
  next
    fix image_data w'
    assume "b64decode (image_b64 req) = Inr image_data"
      and "fst (generate_3d_model e image_data (caption req) (seed req)
                 (octree_resolution req) (num_inference_steps req) (guidance_scale req)
                 (mc_algo req) (texture req) (output_type req) w') = Inl ex"
    then show ?thesis
      unfolding r w by (simp add: lifecycle_generate_error queued_record_def)
  qed
qed

text \<open>
  An image of one data character does not decode: the job fails without a backend call.
\<close>

theorem failure_is_recorded_witness:
  "b64decode (image_b64 undecodable_request) =
     Inl (BinasciiError (''Invalid base64-encoded string: number of data characters (1) ''
            @ ''cannot be 1 more than a multiple of 4''))
   \<and> fst (lifecycle backend_ok ''job-1'' 0 undecodable_request 1 Map.empty) = Inr ()
   \<and> jobs (snd (lifecycle backend_ok ''job-1'' 0 undecodable_request 1 Map.empty)) ''job-1'' =
       Some ((queued_record 0 undecodable_request)\<lparr>status := ''failed'', progress := 0,
          message := ''Model generation failed'',
          error := Some (''Error processing job job-1: Invalid base64-encoded string: ''
             @ ''number of data characters (1) cannot be 1 more than a multiple of 4'')\<rparr>)
   \<and> posted (snd (lifecycle backend_ok ''job-1'' 0 undecodable_request 1 Map.empty)) = []"
  using failure_is_recorded [of backend_ok "''job-1''" 0 undecodable_request 1 Map.empty
      "fst (lifecycle backend_ok ''job-1'' 0 undecodable_request 1 Map.empty)"
      "snd (lifecycle backend_ok ''job-1'' 0 undecodable_request 1 Map.empty)"
      "BinasciiError (''Invalid base64-encoded string: number of data characters (1) ''
            @ ''cannot be 1 more than a multiple of 4'')"]
    undecodable_image_fails
  by (simp add: lifecycle_decode_error [OF undecodable_image_fails])

subsection \<open>C4: the progress\<close>

text \<open>
  C4, as the code has it. The progress of every record of a run is between 0 and 100.
  When the image decodes and the Generator Client returns, the job ends completed and the
  progress went 0, 10, 30, 80, 100. When the image does not decode, the job ends failed
  and the progress went 0, 10 and back to 0. When the image decodes and the Generator
  Client raises, the job ends failed and the progress went 0, 10, 30 and back to 0. The
  step back to 0, made by the except block, is the only step down.
\<close>

theorem progress_by_outcome:
  assumes run: "lifecycle e job_id t0 req t1 js = (r, w)"
  shows "(\<forall>j \<in> set (records job_id w). 0 \<le> progress j \<and> progress j \<le> 100)
       \<and> (\<forall>ex. b64decode (image_b64 req) = Inl ex \<longrightarrow>
             map_option status (jobs w job_id) = Some ''failed''
             \<and> remdups_adj (map progress (records job_id w)) = [0, 10, 0])
       \<and> (\<forall>image_data w' ex. b64decode (image_b64 req) = Inr image_data
             \<and> fst (generate_3d_model e image_data (caption req) (seed req)
                      (octree_resolution req) (num_inference_steps req) (guidance_scale req)
                      (mc_algo req) (texture req) (output_type req) w') = Inl ex \<longrightarrow>
             map_option status (jobs w job_id) = Some ''failed''
             \<and> remdups_adj (map progress (records job_id w)) = [0, 10, 30, 0])
       \<and> (\<forall>image_data w' model_data. b64decode (image_b64 req) = Inr image_data
             \<and> fst (generate_3d_model e image_data (caption req) (seed req)
                      (octree_resolution req) (num_inference_steps req) (guidance_scale req)
                      (mc_algo req) (texture req) (output_type req) w') = Inr model_data \<longrightarrow>
             map_option status (jobs w job_id) = Some ''completed''
             \<and> remdups_adj (map progress (records job_id w)) = [0, 10, 30, 80, 100])
       \<and> (\<exists>final. jobs w job_id = Some final \<and>
            (if status final = ''completed''
             then remdups_adj (map progress (records job_id w)) = [0, 10, 30, 80, 100]
             else status final = ''failed''
                  \<and> (remdups_adj (map progress (records job_id w)) = [0, 10, 0]
                     \<or> remdups_adj (map progress (records job_id w)) = [0, 10, 30, 0])))"
proof -
  have w: "w = snd (lifecycle e job_id t0 req t1 js)"
    using run by simp
  have by_kind: "(\<forall>ex. b64decode (image_b64 req) = Inl ex \<longrightarrow>
             map_option status (jobs w job_id) = Some ''failed''
             \<and> remdups_adj (map progress (records job_id w)) = [0, 10, 0])
       \<and> (\<forall>image_data w' ex. b64decode (image_b64 req) = Inr image_data
             \<and> fst (generate_3d_model e image_data (caption req) (seed req)
                      (octree_resolution req) (num_inference_steps req) (guidance_scale req)
                      (mc_algo req) (texture req) (output_type req) w') = Inl ex \<longrightarrow>
             map_option status (jobs w job_id) = Some ''failed''
             \<and> remdups_adj (map progress (records job_id w)) = [0, 10, 30, 0])
       \<and> (\<forall>image_data w' model_data. b64decode (image_b64 req) = Inr image_data
             \<and> fst (generate_3d_model e image_data (caption req) (seed req)
                      (octree_resolution req) (num_inference_steps req) (guidance_scale req)
                      (mc_algo req) (texture req) (output_type req) w') = Inr model_data \<longrightarrow>
             map_option status (jobs w job_id) = Some ''completed''
             \<and> remdups_adj (map progress (records job_id w)) = [0, 10, 30, 80, 100])"
  proof (intro conjI allI impI; (elim conjE)?)
    fix ex
    assume "b64decode (image_b64 req) = Inl ex"
    then show "map_option status (jobs w job_id) = Some ''failed''"
      and "remdups_adj (map progress (records job_id w)) = [0, 10, 0]"
      unfolding w by (simp_all add: lifecycle_decode_error queued_record_def)
  next
    fix image_data w' ex
    assume "b64decode (image_b64 req) = Inr image_data"
      and "fst (generate_3d_model e image_data (caption req) (seed req)
                      (octree_resolution req) (num_inference_steps req) (guidance_scale req)
                      (mc_algo req) (texture req) (output_type req) w') = Inl ex"
    then show "map_option status (jobs w job_id) = Some ''failed''"
      and "remdups_adj (map progress (records job_id w)) = [0, 10, 30, 0]"
      unfolding w by (simp_all add: lifecycle_generate_error queued_record_def)
  next
    fix image_data w' model_data
    assume "b64decode (image_b64 req) = Inr image_data"
      and "fst (generate_3d_model e image_data (caption req) (seed req)
                      (octree_resolution req) (num_inference_steps req) (guidance_scale req)
                      (mc_algo req) (texture req) (output_type req) w') = Inr model_data"
    then show "map_option status (jobs w job_id) = Some ''completed''"
      and "remdups_adj (map progress (records job_id w)) = [0, 10, 30, 80, 100]"
      unfolding w by (simp_all add: lifecycle_success queued_record_def)
  qed
  have in_range: "\<forall>j \<in> set (records job_id w). 0 \<le> progress j \<and> progress j \<le> 100"
    and by_end: "\<exists>final. jobs w job_id = Some final \<and>
            (if status final = ''completed''
             then remdups_adj (map progress (records job_id w)) = [0, 10, 30, 80, 100]
             else status final = ''failed''
                  \<and> (remdups_adj (map progress (records job_id w)) = [0, 10, 0]
                     \<or> remdups_adj (map progress (records job_id w)) = [0, 10, 30, 0]))"
  proof (atomize (full), cases rule: lifecycle_cases [where req = req and e = e])
    case (decode_error ex)
    show "(\<forall>j \<in> set (records job_id w). 0 \<le> progress j \<and> progress j \<le> 100) \<and>
          (\<exists>final. jobs w job_id = Some final \<and>
            (if status final = ''completed''
             then remdups_adj (map progress (records job_id w)) = [0, 10, 30, 80, 100]
             else status final = ''failed''
                  \<and> (remdups_adj (map progress (records job_id w)) = [0, 10, 0]
                     \<or> remdups_adj (map progress (records job_id w)) = [0, 10, 30, 0])))"
      unfolding w
      by (simp add: lifecycle_decode_error [OF decode_error] queued_record_def)
  next
    case (generate_error img ex)
    show "(\<forall>j \<in> set (records job_id w). 0 \<le> progress j \<and> progress j \<le> 100) \<and>
          (\<exists>final. jobs w job_id = Some final \<and>
            (if status final = ''completed''
             then remdups_adj (map progress (records job_id w)) = [0, 10, 30, 80, 100]
             else status final = ''failed''
                  \<and> (remdups_adj (map progress (records job_id w)) = [0, 10, 0]
                     \<or> remdups_adj (map progress (records job_id w)) = [0, 10, 30, 0])))"
      unfolding w
      by (simp add: lifecycle_generate_error [OF generate_error] queued_record_def)
  next
    case (success img model_data)
    show "(\<forall>j \<in> set (records job_id w). 0 \<le> progress j \<and> progress j \<le> 100) \<and>
          (\<exists>final. jobs w job_id = Some final \<and>
            (if status final = ''completed''
             then remdups_adj (map progress (records job_id w)) = [0, 10, 30, 80, 100]
             else status final = ''failed''
                  \<and> (remdups_adj (map progress (records job_id w)) = [0, 10, 0]
                     \<or> remdups_adj (map progress (records job_id w)) = [0, 10, 30, 0])))"
      unfolding w
      by (simp add: lifecycle_success [OF success] queued_record_def)
  qed
  from in_range by_kind by_end show ?thesis
    by blast
qed

text \<open>
  The claim as first stated has the progress never go down. Against a backend that is
  down the progress is 30 when the except block sets it to 0.
\<close>

theorem progress_decreases_counterexample:
  "\<not> sorted (map progress (records ''job-1''
        (snd (lifecycle backend_down ''job-1'' 0 example_request 1 Map.empty))))"
  by (simp add: lifecycle_generate_error [OF example_image_decodes backend_down_raises]
      queued_record_def)

text \<open>
  The three outcomes, run: an image that does not decode, a backend that is down, and a
  backend that answers.
\<close>

theorem progress_by_outcome_witness:
  "b64decode (image_b64 undecodable_request) =
     Inl (BinasciiError (''Invalid base64-encoded string: number of data characters (1) ''
            @ ''cannot be 1 more than a multiple of 4''))
   \<and> remdups_adj (map progress (records ''job-1''
        (snd (lifecycle backend_ok ''job-1'' 0 undecodable_request 1 Map.empty))))
     = [0, 10, 0]
   \<and> b64decode (image_b64 example_request) = Inr [77, 97, 110]
   \<and> fst (generate_3d_model backend_down [77, 97, 110] (caption example_request)
        (seed example_request) (octree_resolution example_request)
        (num_inference_steps example_request) (guidance_scale example_request)
        (mc_algo example_request) (texture example_request) (output_type example_request)
        (start Map.empty))
     = Inl (PyException ''Error generating 3D model: 503 Service Unavailable'')
   \<and> remdups_adj (map progress (records ''job-1''
        (snd (lifecycle backend_down ''job-1'' 0 example_request 1 Map.empty))))
     = [0, 10, 30, 0]
   \<and> fst (generate_3d_model backend_ok [77, 97, 110] (caption example_request)
        (seed example_request) (octree_resolution example_request)
        (num_inference_steps example_request) (guidance_scale example_request)
        (mc_algo example_request) (texture example_request) (output_type example_request)
        (start Map.empty)) = Inr [103, 108, 84, 70]
   \<and> remdups_adj (map progress (records ''job-1''
        (snd (lifecycle backend_ok ''job-1'' 0 example_request 1 Map.empty))))
     = [0, 10, 30, 80, 100]"
  using progress_by_outcome [of backend_ok "''job-1''" 0 undecodable_request 1 Map.empty
      "fst (lifecycle backend_ok ''job-1'' 0 undecodable_request 1 Map.empty)"
      "snd (lifecycle backend_ok ''job-1'' 0 undecodable_request 1 Map.empty)"]
    progress_by_outcome [of backend_down "''job-1''" 0 example_request 1 Map.empty
      "fst (lifecycle backend_down ''job-1'' 0 example_request 1 Map.empty)"
      "snd (lifecycle backend_down ''job-1'' 0 example_request 1 Map.empty)"]
    progress_by_outcome [of backend_ok "''job-1''" 0 example_request 1 Map.empty
      "fst (lifecycle backend_ok ''job-1'' 0 example_request 1 Map.empty)"
      "snd (lifecycle backend_ok ''job-1'' 0 example_request 1 Map.empty)"]
    undecodable_image_fails example_image_decodes backend_down_raises backend_ok_answers
  by simp

subsection \<open>C5: what reaches the backend\<close>

text \<open>
  C5, as the code has it. When the image decodes and the credential is set, the task
  posts one payload: the decoded image, the output type as the request has it, and
  parameters holding the request's caption, step count (under \<^verbatim>\<open>steps\<close>), guidance scale
  and octree resolution unchanged, the two constants, and the seed unchanged when there
  is one (\<^verbatim>\<open>randomize_seed\<close> is then false; without a seed it is true and no seed key is
  set). \<^verbatim>\<open>mc_algo\<close> and \<^verbatim>\<open>texture\<close> are handed to \<^verbatim>\<open>generate_3d_model\<close>, which puts
  neither into the payload.
\<close>

theorem parameters_posted:
  assumes run: "lifecycle e job_id t0 req t1 js = (r, w)"
    and decoded: "b64decode (image_b64 req) = Inr image_data"
    and credential: "truthy (api_key e)"
  shows "posted w =
     [\<lparr>data_image = image_data,
       data_parameters =
         \<lparr>p_caption = caption req, p_steps = num_inference_steps req,
          p_guidance_scale = guidance_scale req,
          p_octree_resolution = octree_resolution req,
          p_check_box_rembg = True, p_num_chunks = 4000,
          p_randomize_seed = (seed req = None), p_seed = seed req\<rparr>,
       data_output_type = output_type req\<rparr>]"
proof -
  have w: "w = snd (lifecycle e job_id t0 req t1 js)"
    using run by simp
  show ?thesis
  proof (cases "fst (generate_3d_model e image_data (caption req) (seed req)
                      (octree_resolution req) (num_inference_steps req) (guidance_scale req)
                      (mc_algo req) (texture req) (output_type req) (start Map.empty))")
    case (Inl ex)
    show ?thesis
      unfolding w using credential
      by (simp add: lifecycle_generate_error [OF decoded Inl] build_parameters_def)
  next
    case (Inr model_data)
    show ?thesis
      unfolding w using credential
      by (simp add: lifecycle_success [OF decoded Inr] build_parameters_def)
  qed
qed

text \<open>
  The claim as first stated has no parameter dropped. Two requests that differ in
  \<^verbatim>\<open>texture\<close> and \<^verbatim>\<open>mc_algo\<close> post the same payload.
\<close>

theorem texture_dropped_counterexample:
  "texture textured_request \<noteq> texture example_request
   \<and> mc_algo textured_request \<noteq> mc_algo example_request
   \<and> posted (snd (lifecycle backend_ok ''job-1'' 0 textured_request 1 Map.empty)) \<noteq> []
   \<and> posted (snd (lifecycle backend_ok ''job-1'' 0 textured_request 1 Map.empty))
     = posted (snd (lifecycle backend_ok ''job-1'' 0 example_request 1 Map.empty))"
proof -
  note plain = lifecycle_success(4) [OF example_image_decodes backend_ok_answers,
      of "''job-1''" 0 1 Map.empty]
  note textured = lifecycle_success(4) [OF textured_image_decodes backend_ok_answers,
      of "''job-1''" 0 1 Map.empty]
  show ?thesis
    unfolding plain textured
    by (simp add: textured_request_def example_request_def backend_ok_def truthy_def)
qed

text \<open>
  The payload of the example request.
\<close>

theorem parameters_posted_witness:
  "b64decode (image_b64 example_request) = Inr [77, 97, 110]
   \<and> truthy (api_key backend_ok)
   \<and> posted (snd (lifecycle backend_ok ''job-1'' 0 example_request 1 Map.empty)) =
     [\<lparr>data_image = [77, 97, 110],
       data_parameters =
         \<lparr>p_caption = Some [], p_steps = Some 20, p_guidance_scale = Some 5,
          p_octree_resolution = Some 128, p_check_box_rembg = True, p_num_chunks = 4000,
          p_randomize_seed = True, p_seed = None\<rparr>,
       data_output_type = Some ''glb''\<rparr>]"
  using parameters_posted [of backend_ok "''job-1''" 0 example_request 1 Map.empty
      "fst (lifecycle backend_ok ''job-1'' 0 example_request 1 Map.empty)"
      "snd (lifecycle backend_ok ''job-1'' 0 example_request 1 Map.empty)"
      "[77, 97, 110]"]
    example_image_decodes
  by (simp add: backend_ok_def truthy_def example_request_def)

subsection \<open>C6: storing a job under an identifier\<close>

text \<open>
  C6, as the code has it. \<^verbatim>\<open>send_job\<close> always answers with the identifier and "queued",
  and the dictionary afterwards is the one before with the queued record stored under the
  identifier: every other record is unchanged, a record already stored under the
  identifier is replaced, and the task is scheduled. There is no DuplicateJob error.
\<close>

theorem send_job_replaces:
  "fst (send_job job_id now req w) = Inr \<lparr>uid = job_id, sr_status = ''queued''\<rparr>
   \<and> jobs (snd (send_job job_id now req w)) job_id = Some (queued_record now req)
   \<and> (\<forall>other. other \<noteq> job_id \<longrightarrow> jobs (snd (send_job job_id now req w)) other = jobs w other)
   \<and> tasks (snd (send_job job_id now req w)) = tasks w @ [(job_id, req)]"
proof -
  have run: "send_job job_id now req w =
      (Inr \<lparr>uid = job_id, sr_status = ''queued''\<rparr>,
       w\<lparr>jobs := (jobs w)(job_id \<mapsto> queued_record now req),
         history := history w @ [(jobs w)(job_id \<mapsto> queued_record now req)],
         tasks := tasks w @ [(job_id, req)]\<rparr>)"
    by (simp add: send_job_def prog_defs)
  show ?thesis
    unfolding run by simp
qed

text \<open>
  The claim as first stated has the creation fail and the existing record kept. With
  the identifier of a finished job, \<^verbatim>\<open>send_job\<close> succeeds and the finished record is gone.
\<close>

theorem duplicate_job_counterexample:
  "one_job_table ''job-1'' = Some finished_record
   \<and> fst (send_job ''job-1'' 3 example_request (start one_job_table))
       = Inr \<lparr>uid = ''job-1'', sr_status = ''queued''\<rparr>
   \<and> jobs (snd (send_job ''job-1'' 3 example_request (start one_job_table))) ''job-1''
       = Some (queued_record 3 example_request)
   \<and> queued_record 3 example_request \<noteq> finished_record"
  by (simp add: send_job_start one_job_table_def queued_record_def finished_record_def)

text \<open>
  With a fresh identifier the finished job stays as it was.
\<close>

theorem send_job_replaces_witness:
  "fst (send_job ''job-2'' 3 example_request (start one_job_table))
       = Inr \<lparr>uid = ''job-2'', sr_status = ''queued''\<rparr>
   \<and> ''job-1'' \<noteq> ''job-2''
   \<and> jobs (snd (send_job ''job-2'' 3 example_request (start one_job_table))) ''job-1''
       = Some finished_record
   \<and> jobs (snd (send_job ''job-2'' 3 example_request (start one_job_table))) ''job-2''
       = Some (queued_record 3 example_request)"
  using send_job_replaces [of "''job-2''" 3 example_request "start one_job_table"]
  by (simp add: start_def one_job_table_def)

subsection \<open>C7: the status query\<close>

text \<open>
  C7. An identifier that is not in the dictionary gives the 404 exception. One that is
  there gives the record's status, progress and message, the result only when the status
  is completed, and the record's error. In every dictionary a job's run goes through, the
  answer has a result only with the status completed and an error only with the status
  failed.
\<close>

theorem status_query:
  "(js job_id = None \<longrightarrow>
      get_job_status job_id js
        = Inl (HTTPException 404 (''Job with ID '' @ job_id @ '' not found'')))
   \<and> (\<forall>j. js job_id = Some j \<longrightarrow>
        (\<exists>v. get_job_status job_id js = Inr v
           \<and> js_status v = status j
           \<and> js_progress v = Some (of_int (progress j))
           \<and> js_message v = Some (message j)
           \<and> js_model_base64 v = (if status j = ''completed'' then model_base64 j else None)
           \<and> js_error v = error j))
   \<and> (\<forall>s \<in> set (history (snd (lifecycle e job_id t0 req t1 js))).
        \<exists>v. get_job_status job_id s = Inr v
           \<and> (js_model_base64 v \<noteq> None \<longrightarrow> js_status v = ''completed'')
           \<and> (js_error v \<noteq> None \<longrightarrow> js_status v = ''failed''))"
proof (intro conjI)
  show "js job_id = None \<longrightarrow>
      get_job_status job_id js
        = Inl (HTTPException 404 (''Job with ID '' @ job_id @ '' not found''))"
    by (simp add: get_job_status_def)
  show "\<forall>j. js job_id = Some j \<longrightarrow>
        (\<exists>v. get_job_status job_id js = Inr v
           \<and> js_status v = status j
           \<and> js_progress v = Some (of_int (progress j))
           \<and> js_message v = Some (message j)
           \<and> js_model_base64 v = (if status j = ''completed'' then model_base64 j else None)
           \<and> js_error v = error j)"
    by (simp add: get_job_status_def)
  show "\<forall>s \<in> set (history (snd (lifecycle e job_id t0 req t1 js))).
        \<exists>v. get_job_status job_id s = Inr v
           \<and> (js_model_base64 v \<noteq> None \<longrightarrow> js_status v = ''completed'')
           \<and> (js_error v \<noteq> None \<longrightarrow> js_status v = ''failed'')"
    using lifecycle_records_guarded [of job_id e t0 req t1 js]
    by (auto simp add: lifecycle_history get_job_status_def)
qed

text \<open>
  An unknown identifier, a finished job and a failed job, queried.
\<close>

theorem status_query_witness:
  "get_job_status ''job-9'' one_job_table
     = Inl (HTTPException 404 ''Job with ID job-9 not found'')
   \<and> one_job_table ''job-1'' = Some finished_record
   \<and> get_job_status ''job-1'' one_job_table
     = Inr \<lparr>js_status = ''completed'', js_progress = Some 100,
            js_message = Some ''Model generation completed'',
            js_model_base64 = Some ''Z2xURg=='', js_error = None\<rparr>
   \<and> get_job_status ''job-1''
        (jobs (snd (lifecycle backend_down ''job-1'' 0 example_request 1 Map.empty)))
     = Inr \<lparr>js_status = ''failed'', js_progress = Some 0,
            js_message = Some ''Model generation failed'',
            js_model_base64 = None,
            js_error = Some (''Error processing job job-1: ''
               @ ''Error generating 3D model: 503 Service Unavailable'')\<rparr>"
  using status_query [of one_job_table "''job-9''" backend_down 0 example_request 1]
    status_query [of one_job_table "''job-1''" backend_down 0 example_request 1]
  by (simp add: get_job_status_def one_job_table_def finished_record_def
      lifecycle_generate_error [OF example_image_decodes backend_down_raises]
      queued_record_def)

subsection \<open>C8: a success is recorded\<close>

text \<open>
  C8. When the image decodes and the Generator Client returns \<open>model_data\<close>, the task
  returns normally and the record is the queued record with status completed, progress
  100, message "Model generation completed", the base64 text of \<open>model_data\<close> as
  \<^verbatim>\<open>model_base64\<close>, and \<^verbatim>\<open>completed_at\<close> set to the time read.
\<close>

theorem success_is_recorded:
  assumes run: "lifecycle e job_id t0 req t1 js = (r, w)"
    and decoded: "b64decode (image_b64 req) = Inr image_data"
    and generated: "fst (generate_3d_model e image_data (caption req) (seed req)
                      (octree_resolution req) (num_inference_steps req) (guidance_scale req)
                      (mc_algo req) (texture req) (output_type req) w') = Inr model_data"
  shows "r = Inr ()
       \<and> jobs w job_id = Some ((queued_record t0 req)\<lparr>status := ''completed'', progress := 100,
            message := ''Model generation completed'',
            model_base64 := Some (b64encode model_data), completed_at := Some t1\<rparr>)"
proof -
  have r: "r = fst (lifecycle e job_id t0 req t1 js)"
    and w: "w = snd (lifecycle e job_id t0 req t1 js)"
    using run by simp_all
  show ?thesis
    unfolding r w by (simp add: lifecycle_success [OF decoded generated])
qed

text \<open>
  The example request against a backend that answers "glTF".
\<close>

theorem success_is_recorded_witness:
  "b64decode (image_b64 example_request) = Inr [77, 97, 110]
   \<and> fst (generate_3d_model backend_ok [77, 97, 110] (caption example_request)
        (seed example_request) (octree_resolution example_request)
        (num_inference_steps example_request) (guidance_scale example_request)
        (mc_algo example_request) (texture example_request) (output_type example_request)
        (start Map.empty)) = Inr [103, 108, 84, 70]
   \<and> fst (lifecycle backend_ok ''job-1'' 0 example_request 1 Map.empty) = Inr ()
   \<and> jobs (snd (lifecycle backend_ok ''job-1'' 0 example_request 1 Map.empty)) ''job-1'' =
       Some \<lparr>status = ''completed'', progress = 100, message = ''Model generation completed'',
             created_at = 0, request = example_request,
             model_base64 = Some ''Z2xURg=='', completed_at = Some 1, error = None\<rparr>"
  using success_is_recorded [of backend_ok "''job-1''" 0 example_request 1 Map.empty
      "fst (lifecycle backend_ok ''job-1'' 0 example_request 1 Map.empty)"
      "snd (lifecycle backend_ok ''job-1'' 0 example_request 1 Map.empty)"
      "[77, 97, 110]" "start Map.empty" "[103, 108, 84, 70]"]
    example_image_decodes backend_ok_answers
  by (simp add: queued_record_def b64_char_def b64_alphabet_def)

subsection \<open>C9: the synchronous endpoint leaves the jobs alone\<close>

text \<open>
  C9. \<^verbatim>\<open>generate_model\<close> never assigns to the dictionary and schedules no task, whatever
  the request and the backend do. When the image decodes and the Generator Client returns
  \<open>model_data\<close>, it answers with exactly these bytes, as \<^verbatim>\<open>application/octet-stream\<close>.
  When the image does not decode or the Generator Client raises \<open>ex\<close>, it raises the HTTP
  exception with status 500 and the text of \<open>ex\<close>. It has no other answer.
\<close>

theorem generate_model_leaves_jobs:
  "jobs (snd (generate_model e req w)) = jobs w
   \<and> history (snd (generate_model e req w)) = history w
   \<and> tasks (snd (generate_model e req w)) = tasks w
   \<and> (\<forall>image_data w' model_data. b64decode (image_b64 req) = Inr image_data
         \<and> fst (generate_3d_model e image_data (caption req) (seed req)
                  (octree_resolution req) (num_inference_steps req) (guidance_scale req)
                  (mc_algo req) (texture req) (output_type req) w') = Inr model_data \<longrightarrow>
         fst (generate_model e req w) = Inr (Response model_data ''application/octet-stream''))
   \<and> (\<forall>ex. b64decode (image_b64 req) = Inl ex \<longrightarrow>
         fst (generate_model e req w) = Inl (HTTPException 500 (str_exc ex)))
   \<and> (\<forall>image_data w' ex. b64decode (image_b64 req) = Inr image_data
         \<and> fst (generate_3d_model e image_data (caption req) (seed req)
                  (octree_resolution req) (num_inference_steps req) (guidance_scale req)
                  (mc_algo req) (texture req) (output_type req) w') = Inl ex \<longrightarrow>
         fst (generate_model e req w) = Inl (HTTPException 500 (str_exc ex)))
   \<and> (case fst (generate_model e req w) of
         Inr (Response content media_type) \<Rightarrow>
           media_type = ''application/octet-stream''
           \<and> (\<exists>image_data. b64decode (image_b64 req) = Inr image_data
                 \<and> fst (generate_3d_model e image_data (caption req) (seed req)
                      (octree_resolution req) (num_inference_steps req) (guidance_scale req)
                      (mc_algo req) (texture req) (output_type req) w) = Inr content)
       | Inl (HTTPException status_code detail) \<Rightarrow> status_code = 500)"
proof -
  have frame_and_answer:
    "jobs (snd (generate_model e req w)) = jobs w
     \<and> history (snd (generate_model e req w)) = history w
     \<and> tasks (snd (generate_model e req w)) = tasks w
     \<and> (case fst (generate_model e req w) of
         Inr (Response content media_type) \<Rightarrow>
           media_type = ''application/octet-stream''
           \<and> (\<exists>image_data. b64decode (image_b64 req) = Inr image_data
                 \<and> fst (generate_3d_model e image_data (caption req) (seed req)
                      (octree_resolution req) (num_inference_steps req) (guidance_scale req)
                      (mc_algo req) (texture req) (output_type req) w) = Inr content)
       | Inl (HTTPException status_code detail) \<Rightarrow> status_code = 500)"
  proof (cases "b64decode (image_b64 req)")
    case (Inl ex)
    show ?thesis
      by (simp add: generate_model_decode_error [OF Inl])
  next
    case (Inr image_data)
    obtain res where res: "fst (generate_3d_model e image_data (caption req) (seed req)
          (octree_resolution req) (num_inference_steps req) (guidance_scale req)
          (mc_algo req) (texture req) (output_type req) w) = res"
      by simp
    show ?thesis
      using res Inr
      by (cases res)
        (simp_all add: generate_model_decoded [OF Inr] generate_3d_model_run [OF res])
  qed
  have on_success: "fst (generate_model e req w)
      = Inr (Response model_data ''application/octet-stream'')"
    if "b64decode (image_b64 req) = Inr image_data"
      and "fst (generate_3d_model e image_data (caption req) (seed req)
                  (octree_resolution req) (num_inference_steps req) (guidance_scale req)
                  (mc_algo req) (texture req) (output_type req) w') = Inr model_data"
    for image_data w' model_data
    by (simp add: generate_model_decoded [OF that(1)] generate_3d_model_run [OF that(2)])
  have on_decode_error: "fst (generate_model e req w) = Inl (HTTPException 500 (str_exc ex))"
    if "b64decode (image_b64 req) = Inl ex" for ex
    by (simp add: generate_model_decode_error [OF that])
  have on_generate_error: "fst (generate_model e req w) = Inl (HTTPException 500 (str_exc ex))"
    if "b64decode (image_b64 req) = Inr image_data"
      and "fst (generate_3d_model e image_data (caption req) (seed req)
                  (octree_resolution req) (num_inference_steps req) (guidance_scale req)
                  (mc_algo req) (texture req) (output_type req) w') = Inl ex"
    for image_data w' ex
    by (simp add: generate_model_decoded [OF that(1)] generate_3d_model_run [OF that(2)])
  from frame_and_answer on_success on_decode_error on_generate_error show ?thesis
    by blast
qed

text \<open>
  A dictionary with one finished job, before and after a good and a failing request.
\<close>

theorem generate_model_leaves_jobs_witness:
  "b64decode (image_b64 example_request) = Inr [77, 97, 110]
   \<and> fst (generate_3d_model backend_ok [77, 97, 110] (caption example_request)
        (seed example_request) (octree_resolution example_request)
        (num_inference_steps example_request) (guidance_scale example_request)
        (mc_algo example_request) (texture example_request) (output_type example_request)
        (start one_job_table)) = Inr [103, 108, 84, 70]
   \<and> fst (generate_model backend_ok example_request (start one_job_table))
     = Inr (Response [103, 108, 84, 70] ''application/octet-stream'')
   \<and> jobs (snd (generate_model backend_ok example_request (start one_job_table)))
     = one_job_table
   \<and> fst (generate_3d_model backend_down [77, 97, 110] (caption example_request)
        (seed example_request) (octree_resolution example_request)
        (num_inference_steps example_request) (guidance_scale example_request)
        (mc_algo example_request) (texture example_request) (output_type example_request)
        (start one_job_table))
     = Inl (PyException ''Error generating 3D model: 503 Service Unavailable'')
   \<and> fst (generate_model backend_down example_request (start one_job_table))
     = Inl (HTTPException 500 ''Error generating 3D model: 503 Service Unavailable'')
   \<and> jobs (snd (generate_model backend_down example_request (start one_job_table)))
     = one_job_table"
  using generate_model_leaves_jobs [of backend_ok example_request "start one_job_table"]
    generate_model_leaves_jobs [of backend_down example_request "start one_job_table"]
    example_image_decodes backend_ok_answers backend_down_raises
  by (simp add: start_def)

subsection \<open>C10: every synchronous failure is a 500\<close>

text \<open>
  C10. On the synchronous endpoint an image that does not decode, a missing credential
  and a failing backend all end in the HTTP exception with status 500, whose detail is the
  text of the exception: the decoder's text, \<^verbatim>\<open>HUGGINGFACE_API_KEY is not set\<close>, or the
  backend's text after "Error generating 3D model: ". No failure has another status.
\<close>

theorem generate_model_failures:
  "(\<forall>ex. b64decode (image_b64 req) = Inl ex \<longrightarrow>
       fst (generate_model e req w) = Inl (HTTPException 500 (str_exc ex)))
   \<and> (\<forall>image_data. b64decode (image_b64 req) = Inr image_data \<and> \<not> truthy (api_key e) \<longrightarrow>
       fst (generate_model e req w) = Inl (HTTPException 500 ''HUGGINGFACE_API_KEY is not set''))
   \<and> (\<forall>image_data ex. b64decode (image_b64 req) = Inr image_data \<and> truthy (api_key e)
         \<and> post e \<lparr>data_image = image_data,
                    data_parameters = build_parameters (caption req) (seed req)
                      (octree_resolution req) (num_inference_steps req) (guidance_scale req),
                    data_output_type = output_type req\<rparr> = Inl ex \<longrightarrow>
       fst (generate_model e req w)
         = Inl (HTTPException 500 (''Error generating 3D model: '' @ str_exc ex)))
   \<and> (\<forall>err. fst (generate_model e req w) = Inl err \<longrightarrow>
         (\<exists>detail. err = HTTPException 500 detail))"
proof (intro conjI allI impI)
  fix ex
  assume "b64decode (image_b64 req) = Inl ex"
  then show "fst (generate_model e req w) = Inl (HTTPException 500 (str_exc ex))"
    by (simp add: generate_model_decode_error)
next
  fix image_data
  assume "b64decode (image_b64 req) = Inr image_data \<and> \<not> truthy (api_key e)"
  then show "fst (generate_model e req w)
      = Inl (HTTPException 500 ''HUGGINGFACE_API_KEY is not set'')"
    by (simp add: generate_model_decoded generate_3d_model_def prog_defs)
next
  fix image_data ex
  assume "b64decode (image_b64 req) = Inr image_data \<and> truthy (api_key e)
         \<and> post e \<lparr>data_image = image_data,
                    data_parameters = build_parameters (caption req) (seed req)
                      (octree_resolution req) (num_inference_steps req) (guidance_scale req),
                    data_output_type = output_type req\<rparr> = Inl ex"
  then show "fst (generate_model e req w)
         = Inl (HTTPException 500 (''Error generating 3D model: '' @ str_exc ex))"
    by (simp add: generate_model_decoded generate_3d_model_def prog_defs)
next
  fix err
  assume "fst (generate_model e req w) = Inl err"
  then show "\<exists>detail. err = HTTPException 500 detail"
    by (auto simp add: generate_model_def split: prod.splits sum.splits)
qed

text \<open>
  The three failures, each a 500.
\<close>

theorem generate_model_failures_witness:
  "b64decode (image_b64 undecodable_request) =
     Inl (BinasciiError (''Invalid base64-encoded string: number of data characters (1) ''
            @ ''cannot be 1 more than a multiple of 4''))
   \<and> fst (generate_model backend_ok undecodable_request (start Map.empty))
     = Inl (HTTPException 500 (''Invalid base64-encoded string: number of data characters (1) ''
            @ ''cannot be 1 more than a multiple of 4''))
   \<and> b64decode (image_b64 example_request) = Inr [77, 97, 110]
   \<and> \<not> truthy (api_key no_credential)
   \<and> fst (generate_model no_credential example_request (start Map.empty))
     = Inl (HTTPException 500 ''HUGGINGFACE_API_KEY is not set'')
   \<and> fst (generate_model backend_down example_request (start Map.empty))
     = Inl (HTTPException 500 ''Error generating 3D model: 503 Service Unavailable'')"
  using generate_model_failures [of undecodable_request backend_ok "start Map.empty"]
    generate_model_failures [of example_request no_credential "start Map.empty"]
    generate_model_failures [of example_request backend_down "start Map.empty"]
    undecodable_image_fails example_image_decodes
  by (simp add: no_credential_def backend_down_def truthy_def)

end
